theory Spec2Isabelle
  imports Main "HOL-Library.Sublist" "HOL-Library.Char_ord"
begin

section \<open>The Vector PMDA: task status protocol of \<open>vector.c\<close>\<close>

text \<open>
  The agent keeps one status file per metric and client context under the working
  directory. A store on a task metric launches a background script, a fetch reads the
  status file that the script maintains. The embedding follows \<open>vector.c\<close> function by
  function. A C string is the list of its characters before the terminating NUL; the
  bytes of a file are a list that may hold any character, NUL included.
\<close>

subsection \<open>Constants and tables\<close>

definition WORKING_DIR :: string where
  "WORKING_DIR = ''/var/log/pcp/vector''"

definition VECTOR_DIR :: string where
  "VECTOR_DIR = ''/var/lib/pcp/pmdas/vector''"

definition VECTOR_TASK_CPUFLAMEGRAPH :: nat where "VECTOR_TASK_CPUFLAMEGRAPH = 0"
definition VECTOR_TASK_DISKLATENCYHEATMAP :: nat where "VECTOR_TASK_DISKLATENCYHEATMAP = 1"
definition VECTOR_TASK_JSTACKFLAMEGRAPH :: nat where "VECTOR_TASK_JSTACKFLAMEGRAPH = 2"
definition VECTOR_TASK_PNAMECPUFLAMEGRAPH :: nat where "VECTOR_TASK_PNAMECPUFLAMEGRAPH = 3"
definition VECTOR_TASK_UNINLINEDCPUFLAMEGRAPH :: nat where "VECTOR_TASK_UNINLINEDCPUFLAMEGRAPH = 4"
definition VECTOR_TASK_PAGEFAULTFLAMEGRAPH :: nat where "VECTOR_TASK_PAGEFAULTFLAMEGRAPH = 5"
definition VECTOR_TASK_DISKIOFLAMEGRAPH :: nat where "VECTOR_TASK_DISKIOFLAMEGRAPH = 6"
definition VECTOR_TASK_IPCFLAMEGRAPH :: nat where "VECTOR_TASK_IPCFLAMEGRAPH = 7"
definition VECTOR_TASK_CSWFLAMEGRAPH :: nat where "VECTOR_TASK_CSWFLAMEGRAPH = 8"
definition VECTOR_TASK_OFFCPUFLAMEGRAPH :: nat where "VECTOR_TASK_OFFCPUFLAMEGRAPH = 9"
definition VECTOR_TASK_OFFWAKEFLAMEGRAPH :: nat where "VECTOR_TASK_OFFWAKEFLAMEGRAPH = 10"
definition VECTOR_TASK_METRIC_COUNT :: nat where "VECTOR_TASK_METRIC_COUNT = 11"

definition tasknames :: "string list" where
  "tasknames =
    [''cpuflamegraph'',
     ''disklatencyheatmap'',
     ''jstackflamegraph'',
     ''pnamecpuflamegraph'',
     ''uninlinedcpuflamegraph'',
     ''pagefaultflamegraph'',
     ''diskioflamegraph'',
     ''ipcflamegraph'',
     ''cswflamegraph'',
     ''offcpuflamegraph'',
     ''offwakeflamegraph'']"

text \<open>
  The first group of \<open>case\<close> labels, the same nine in the switch of \<open>vector_store\<close>
  and in the switch of \<open>vector_fetchCallBack\<close>: the tasks whose script takes the
  seconds argument and whose done message the agent completes.
\<close>

definition takes_argument :: "nat \<Rightarrow> bool" where
  "takes_argument itm \<longleftrightarrow>
     itm = VECTOR_TASK_CPUFLAMEGRAPH
     \<or> itm = VECTOR_TASK_PNAMECPUFLAMEGRAPH
     \<or> itm = VECTOR_TASK_UNINLINEDCPUFLAMEGRAPH
     \<or> itm = VECTOR_TASK_PAGEFAULTFLAMEGRAPH
     \<or> itm = VECTOR_TASK_DISKIOFLAMEGRAPH
     \<or> itm = VECTOR_TASK_IPCFLAMEGRAPH
     \<or> itm = VECTOR_TASK_CSWFLAMEGRAPH
     \<or> itm = VECTOR_TASK_OFFCPUFLAMEGRAPH
     \<or> itm = VECTOR_TASK_OFFWAKEFLAMEGRAPH"

text \<open>
  The result codes come from the PCP headers, which are not part of the agent's source.
  They are distinct values there; here they are the constructors of one type, with
  \<open>RET_0\<close> for the plain \<open>return 0\<close> of a successful store.
\<close>

datatype retcode =
    RET_0
  | PM_ERR_PMID
  | PM_ERR_INST
  | PM_ERR_BADSTORE
  | PM_ERR_AGAIN
  | PMDA_FETCH_STATIC

text \<open>The instance identifier of a metric without instance domain (\<open>0xffffffff\<close>).\<close>

definition PM_IN_NULL :: nat where
  "PM_IN_NULL = 4294967295"

subsection \<open>Formatting\<close>

text \<open>The conversion \<open>%d\<close> of \<open>sprintf\<close>: decimal digits, a minus sign when negative.\<close>

fun dec_digits :: "nat \<Rightarrow> string" where
  "dec_digits n =
     (if n < 10 then [''0123456789'' ! n]
      else dec_digits (n div 10) @ [''0123456789'' ! (n mod 10)])"

declare dec_digits.simps [simp del]

definition fmt_d :: "int \<Rightarrow> string" where
  "fmt_d i = (if i < 0 then CHR ''-'' # dec_digits (nat (- i)) else dec_digits (nat i))"

text \<open>
  \<open>sprintf(statuspath, "%s/%s/%s.%d.status", WORKING_DIR, metric, metric, ctx)\<close>. The
  metric names are those of \<open>tasknames\<close> (at most 22 characters) and \<open>ctx\<close> is a C
  \<open>int\<close>, so the path stays far below the 256 bytes of \<open>statuspath\<close>.
\<close>

definition statuspath :: "string \<Rightarrow> int \<Rightarrow> string" where
  "statuspath metric ctx =
     WORKING_DIR @ ''/'' @ metric @ ''/'' @ metric @ ''.'' @ fmt_d ctx @ ''.status''"

subsection \<open>The file system and the state of the agent\<close>

text \<open>
  A path names a regular file with its bytes, or a directory: \<open>open\<close> with \<open>O_RDONLY\<close>
  succeeds on both, \<open>read\<close> fails on a directory, and \<open>unlink\<close> removes a regular file
  only. Descriptor 0 is taken by the standard input of the agent, so a successful
  \<open>open\<close> returns a positive descriptor, as the tests \<open>fd > 0\<close> of the source expect.
\<close>

datatype node = Regular string | Directory

type_synonym filesystem = "string \<rightharpoonup> node"

record pmda_state =
  files :: filesystem
  environ :: "string \<rightharpoonup> string"
  launched :: "string list"
  errlog :: "string list"

text \<open>\<open>open(path, O_RDONLY)\<close>: the node behind the descriptor, \<open>None\<close> when it fails.\<close>

definition open_rdonly :: "filesystem \<Rightarrow> string \<Rightarrow> node option" where
  "open_rdonly fs path = fs path"

text \<open>
  \<open>read(fd, buf, bufsz)\<close> on a fresh descriptor: the count returned and the bytes put
  into the buffer; \<open>-1\<close> and nothing on a directory.
\<close>

fun read_fd :: "node \<Rightarrow> nat \<Rightarrow> int \<times> string" where
  "read_fd (Regular bytes) bufsz = (int (min (length bytes) bufsz), take bufsz bytes)"
| "read_fd Directory bufsz = (- 1, [])"

fun unlink :: "filesystem \<Rightarrow> string \<Rightarrow> filesystem" where
  "unlink fs path =
     (case fs path of
        Some (Regular bytes) \<Rightarrow> fs(path := None)
      | Some Directory \<Rightarrow> fs
      | None \<Rightarrow> fs)"

text \<open>The C string that starts at the beginning of a buffer.\<close>

definition cstring :: "string \<Rightarrow> string" where
  "cstring buf = takeWhile (\<lambda>c. c \<noteq> CHR 0x00) buf"

subsection \<open>Status files\<close>

text \<open>
  \<open>getstatus\<close>: the message stays \<open>"UNKNOWN"\<close> unless the file opens and \<open>read\<close>
  returns more than one byte; then the last byte read is overwritten with NUL and the
  buffer is the message.
\<close>

definition getstatus :: "string \<Rightarrow> nat \<Rightarrow> int \<Rightarrow> filesystem \<Rightarrow> string" where
  "getstatus metric bufsz ctx fs =
     (case open_rdonly fs (statuspath metric ctx) of
        Some nd \<Rightarrow>
          (let (sz, buf) = read_fd nd bufsz
           in if sz > 1 then cstring (buf[nat (sz - 1) := CHR 0x00]) else ''UNKNOWN'')
      | None \<Rightarrow> ''UNKNOWN'')"

definition hasstatus :: "string \<Rightarrow> int \<Rightarrow> filesystem \<Rightarrow> bool" where
  "hasstatus metric ctx fs =
     (case open_rdonly fs (statuspath metric ctx) of Some nd \<Rightarrow> True | None \<Rightarrow> False)"

definition rmstatus :: "string \<Rightarrow> int \<Rightarrow> filesystem \<Rightarrow> filesystem" where
  "rmstatus metric ctx fs = unlink fs (statuspath metric ctx)"

subsection \<open>Input validation\<close>

text \<open>
  \<open>badinput\<close>: 1 at the first character below \<open>'0'\<close> or above \<open>'9'\<close>, 0 at the end of
  the string. Whether \<open>char\<close> is signed or not, a byte above 127 is outside the range.
\<close>

fun badinput :: "string \<Rightarrow> bool" where
  "badinput [] = False"
| "badinput (c # cs) = (if c < CHR ''0'' \<or> c > CHR ''9'' then True else badinput cs)"

text \<open>
  \<open>strstr\<close>: the position of the first occurrence of the needle, \<open>None\<close> for the null
  pointer. The test \<open>strstr(status, "ERROR") != status\<close> of the source is
  \<open>strstr status ''ERROR'' \<noteq> Some 0\<close>.
\<close>

fun strstr :: "string \<Rightarrow> string \<Rightarrow> nat option" where
  "strstr [] needle = (if needle = [] then Some 0 else None)"
| "strstr (c # cs) needle =
     (if prefix needle (c # cs) then Some 0 else map_option Suc (strstr cs needle))"

subsection \<open>Store: launching a task\<close>

text \<open>
  The value set handed to \<open>vector_store\<close>: cluster and item of the metric identifier,
  the number of values, and what \<open>pmExtractValue\<close> makes of the first value (\<open>None\<close>
  when it fails).
\<close>

record pmValueSet =
  cluster :: nat
  item :: nat
  numval :: int
  extracted :: "string option"

text \<open>
  The optional seconds argument: \<open>secs\<close> is the empty string unless \<open>pmExtractValue\<close>
  succeeds.
\<close>

definition secs_of :: "string option \<Rightarrow> string" where
  "secs_of ex = (case ex of Some cp \<Rightarrow> cp | None \<Rightarrow> [])"

text \<open>
  \<open>sprintf(cmd, VECTOR_DIR "/%s.sh %s &", metricname, secs)\<close> into \<open>char cmd[256]\<close>: the
  command line, or \<open>None\<close> when it does not fit with its terminating NUL; the source
  then writes past the end of \<open>cmd\<close>, and nothing is known about what follows.
\<close>

definition sprintf_cmd :: "string \<Rightarrow> string \<Rightarrow> string option" where
  "sprintf_cmd metricname secs =
     (let out = VECTOR_DIR @ ''/'' @ metricname @ ''.sh '' @ secs @ '' &''
      in if length out < 256 then Some out else None)"

text \<open>
  \<open>system(cmd)\<close> hands the command line to the shell, which puts the script in the
  background; \<open>rc\<close> is what \<open>system\<close> returns and \<open>err\<close> the text of
  \<open>pmErrStr(- oserror())\<close>. A failure is written to the standard error stream.
\<close>

definition run_system :: "string \<Rightarrow> int \<Rightarrow> string \<Rightarrow> pmda_state \<Rightarrow> pmda_state" where
  "run_system cmd rc err s =
     (let s' = s\<lparr>launched := launched s @ [cmd]\<rparr>
      in if rc \<noteq> 0 then s'\<lparr>errlog := errlog s' @ [''system failed: '' @ err]\<rparr> else s')"

text \<open>
  \<open>vector_store\<close>, for the context \<open>ctx\<close> that \<open>pmdaGetContext\<close> returns. The result is
  the return value with the state left behind, \<open>None\<close> when \<open>cmd\<close> overflows.
\<close>

definition vector_store ::
  "pmValueSet \<Rightarrow> int \<Rightarrow> int \<Rightarrow> string \<Rightarrow> pmda_state \<Rightarrow> (retcode \<times> pmda_state) option" where
  "vector_store vsp ctx rc err s =
     (if cluster vsp \<noteq> 0 then Some (PM_ERR_PMID, s)
      else if numval vsp \<noteq> 1 then Some (PM_ERR_PMID, s)
      else
        let s1 = s\<lparr>environ := (environ s)(''PCP_CONTEXT'' \<mapsto> fmt_d ctx)\<rparr> in
        if takes_argument (item vsp) then
          let metricname = tasknames ! item vsp;
              secs = secs_of (extracted vsp)
          in
            if (case extracted vsp of Some cp \<Rightarrow> badinput cp | None \<Rightarrow> False)
            then Some (PM_ERR_BADSTORE, s1)
            else if hasstatus metricname ctx (files s1)
                    \<and> (let status = getstatus metricname 256 ctx (files s1)
                       in status \<noteq> ''DONE'' \<and> strstr status ''ERROR'' \<noteq> Some 0)
            then Some (PM_ERR_AGAIN, s1)
            else
              (case sprintf_cmd metricname secs of
                 None \<Rightarrow> None
               | Some cmd \<Rightarrow> Some (RET_0, run_system cmd rc err s1))
        else if item vsp = VECTOR_TASK_DISKLATENCYHEATMAP then
          if hasstatus ''disklatencyheatmap'' ctx (files s1)
             \<and> (let status = getstatus ''disklatencyheatmap'' 256 ctx (files s1)
                in status \<noteq> ''DONE'' \<and> strstr status ''ERROR'' \<noteq> Some 0)
          then Some (PM_ERR_AGAIN, s1)
          else Some (RET_0, run_system (VECTOR_DIR @ ''/heatmap.sh &'') rc err s1)
        else if item vsp = VECTOR_TASK_JSTACKFLAMEGRAPH then
          if hasstatus ''jstackflamegraph'' ctx (files s1)
             \<and> (let status = getstatus ''jstackflamegraph'' 256 ctx (files s1)
                in status \<noteq> ''DONE'' \<and> strstr status ''ERROR'' \<noteq> Some 0)
          then Some (PM_ERR_AGAIN, s1)
          else Some (RET_0, run_system (VECTOR_DIR @ ''/jstack.sh &'') rc err s1)
        else Some (PM_ERR_PMID, s1))"

subsection \<open>Fetch: reading the status of a task\<close>

text \<open>
  \<open>vector_fetchCallBack\<close>: the return value, the string left in \<open>atom->cp\<close> (\<open>None\<close>
  when the atom is not written) and the state left behind.
\<close>

definition vector_fetchCallBack ::
  "nat \<Rightarrow> nat \<Rightarrow> nat \<Rightarrow> int \<Rightarrow> pmda_state \<Rightarrow> retcode \<times> string option \<times> pmda_state" where
  "vector_fetchCallBack clu itm inst ctx s =
     (if clu \<noteq> 0 then (PM_ERR_PMID, None, s)
      else if inst \<noteq> PM_IN_NULL then (PM_ERR_INST, None, s)
      else if takes_argument itm then
        let metricname = tasknames ! itm in
          if hasstatus metricname ctx (files s) then
            let cp = getstatus metricname 256 ctx (files s) in
              if cp = ''DONE'' then
                (PMDA_FETCH_STATIC,
                 Some (''DONE '' @ metricname @ ''/'' @ metricname @ ''.'' @ fmt_d ctx @ ''.svg''),
                 s\<lparr>files := rmstatus metricname ctx (files s)\<rparr>)
              else (PMDA_FETCH_STATIC, Some cp, s)
          else (PMDA_FETCH_STATIC, Some ''IDLE'', s)
      else if itm = VECTOR_TASK_DISKLATENCYHEATMAP then
        if hasstatus ''disklatencyheatmap'' ctx (files s) then
          let cp = getstatus ''disklatencyheatmap'' 256 ctx (files s) in
            if cp = ''DONE'' then
              (PMDA_FETCH_STATIC, Some cp,
               s\<lparr>files := rmstatus ''disklatencyheatmap'' ctx (files s)\<rparr>)
            else (PMDA_FETCH_STATIC, Some cp, s)
        else (PMDA_FETCH_STATIC, Some ''IDLE'', s)
      else if itm = VECTOR_TASK_JSTACKFLAMEGRAPH then
        if hasstatus ''jstackflamegraph'' ctx (files s) then
          let cp = getstatus ''jstackflamegraph'' 256 ctx (files s) in
            if cp = ''DONE'' then
              (PMDA_FETCH_STATIC, Some cp,
               s\<lparr>files := rmstatus ''jstackflamegraph'' ctx (files s)\<rparr>)
            else (PMDA_FETCH_STATIC, Some cp, s)
        else (PMDA_FETCH_STATIC, Some ''IDLE'', s)
      else (PM_ERR_PMID, None, s))"

subsection \<open>Notions used by the properties\<close>

text \<open>
  The busy test of \<open>vector_store\<close>, the same in its three branches: a status file is
  there, and the status read is neither \<open>"DONE"\<close> nor begins with \<open>"ERROR"\<close>.
\<close>

definition busy :: "nat \<Rightarrow> int \<Rightarrow> filesystem \<Rightarrow> bool" where
  "busy itm ctx fs \<longleftrightarrow>
     hasstatus (tasknames ! itm) ctx fs
     \<and> getstatus (tasknames ! itm) 256 ctx fs \<noteq> ''DONE''
     \<and> \<not> prefix ''ERROR'' (getstatus (tasknames ! itm) 256 ctx fs)"

text \<open>The command line that \<open>vector_store\<close> hands to \<open>system\<close> for a known item.\<close>

definition command_of :: "nat \<Rightarrow> string \<Rightarrow> string" where
  "command_of itm secs =
     (if takes_argument itm then VECTOR_DIR @ ''/'' @ tasknames ! itm @ ''.sh '' @ secs @ '' &''
      else if itm = VECTOR_TASK_DISKLATENCYHEATMAP then VECTOR_DIR @ ''/heatmap.sh &''
      else VECTOR_DIR @ ''/jstack.sh &'')"

text \<open>The decimal digits.\<close>

definition is_digit :: "char \<Rightarrow> bool" where
  "is_digit c \<longleftrightarrow> c \<in> set ''0123456789''"

text \<open>
  A state of the agent with the given files and nothing launched or logged yet, for
  concrete runs.
\<close>

definition state_with_files :: "(string \<times> node) list \<Rightarrow> pmda_state" where
  "state_with_files fl = \<lparr>files = map_of fl, environ = map_of [], launched = [], errlog = []\<rparr>"

text \<open>
  A client that fetches the same metric \<open>n\<close> times in a row: the strings it is given,
  in order, and the state after the last fetch.
\<close>

fun fetches :: "nat \<Rightarrow> nat \<Rightarrow> int \<Rightarrow> pmda_state \<Rightarrow> string option list \<times> pmda_state" where
  "fetches 0 itm ctx s = ([], s)"
| "fetches (Suc n) itm ctx s =
     (case vector_fetchCallBack 0 itm PM_IN_NULL ctx s of
        (r, v, s') \<Rightarrow> (case fetches n itm ctx s' of (vs, s'') \<Rightarrow> (v # vs, s'')))"

text \<open>
  The status read as the specification words it, to be compared with \<open>getstatus\<close>: the
  raw text of the record with only a trailing newline stripped, and \<open>"UNKNOWN"\<close> exactly
  when the record is empty or cannot be read.
\<close>

definition strip_trailing_newline :: "string \<Rightarrow> string" where
  "strip_trailing_newline txt =
     (if txt \<noteq> [] \<and> last txt = CHR 0x0A then butlast txt else txt)"

definition spec_get :: "node option \<Rightarrow> string" where
  "spec_get r =
     (case r of
        Some (Regular bytes) \<Rightarrow>
          if bytes = [] then ''UNKNOWN'' else strip_trailing_newline bytes
      | Some Directory \<Rightarrow> ''UNKNOWN''
      | None \<Rightarrow> ''UNKNOWN'')"

section \<open>Properties\<close>

subsection \<open>Auxiliary facts\<close>

lemmas task_ids =
  VECTOR_TASK_CPUFLAMEGRAPH_def VECTOR_TASK_DISKLATENCYHEATMAP_def
  VECTOR_TASK_JSTACKFLAMEGRAPH_def VECTOR_TASK_PNAMECPUFLAMEGRAPH_def
  VECTOR_TASK_UNINLINEDCPUFLAMEGRAPH_def VECTOR_TASK_PAGEFAULTFLAMEGRAPH_def
  VECTOR_TASK_DISKIOFLAMEGRAPH_def VECTOR_TASK_IPCFLAMEGRAPH_def
  VECTOR_TASK_CSWFLAMEGRAPH_def VECTOR_TASK_OFFCPUFLAMEGRAPH_def
  VECTOR_TASK_OFFWAKEFLAMEGRAPH_def VECTOR_TASK_METRIC_COUNT_def

lemma strstr_Some_0: "strstr h n = Some 0 \<longleftrightarrow> prefix n h"
  by (cases h) auto

lemma badinput_iff: "badinput s \<longleftrightarrow> (\<exists>c \<in> set s. c < CHR ''0'' \<or> c > CHR ''9'')"
  by (induction s) auto

lemma takeWhile_snoc_stop: "\<not> P c \<Longrightarrow> takeWhile P (ys @ [c]) = takeWhile P ys"
  by (induction ys) auto

lemma update_last: "xs \<noteq> [] \<Longrightarrow> xs[length xs - Suc 0 := c] = butlast xs @ [c]"
  by (induction xs rule: rev_induct) (auto simp: list_update_append)

lemma cstring_nuke_last:
  "xs \<noteq> [] \<Longrightarrow> cstring (xs[length xs - 1 := CHR 0x00]) = cstring (butlast xs)"
  by (simp add: cstring_def update_last takeWhile_snoc_stop)

lemma getstatus_Regular:
  "fs (statuspath m ctx) = Some (Regular bytes) \<Longrightarrow>
   getstatus m bufsz ctx fs =
     (if 1 < min (length bytes) bufsz
      then cstring (butlast (take bufsz bytes)) else ''UNKNOWN'')"
proof -
  assume f: "fs (statuspath m ctx) = Some (Regular bytes)"
  let ?buf = "take bufsz bytes"
  show ?thesis
  proof (cases "1 < min (length bytes) bufsz")
    case True
    then have ne: "?buf \<noteq> []" by auto
    have "nat (int (min (length bytes) bufsz) - 1) = length ?buf - 1"
      using True by simp
    then have "cstring (?buf[nat (int (min (length bytes) bufsz) - 1) := CHR 0x00])
                 = cstring (butlast ?buf)"
      using cstring_nuke_last [OF ne] by (simp only:)
    moreover have "getstatus m bufsz ctx fs
        = cstring (?buf[nat (int (min (length bytes) bufsz) - 1) := CHR 0x00])"
      using True f by (simp add: getstatus_def open_rdonly_def)
    ultimately show ?thesis
      using True by (simp only: if_True)
  next
    case False
    with f show ?thesis
      by (auto simp add: getstatus_def open_rdonly_def)
  qed
qed

lemma getstatus_Directory:
  "fs (statuspath m ctx) = Some Directory \<Longrightarrow> getstatus m bufsz ctx fs = ''UNKNOWN''"
  by (simp add: getstatus_def open_rdonly_def)

lemma getstatus_None:
  "fs (statuspath m ctx) = None \<Longrightarrow> getstatus m bufsz ctx fs = ''UNKNOWN''"
  by (simp add: getstatus_def open_rdonly_def)

lemma hasstatus_iff: "hasstatus m ctx fs \<longleftrightarrow> fs (statuspath m ctx) \<noteq> None"
  by (simp add: hasstatus_def open_rdonly_def split: option.splits)

lemma getstatus_known_Regular:
  assumes "getstatus m bufsz ctx fs \<noteq> ''UNKNOWN''"
  shows "\<exists>bytes. fs (statuspath m ctx) = Some (Regular bytes)"
proof (cases "fs (statuspath m ctx)")
  case None
  with assms show ?thesis by (simp add: getstatus_None)
next
  case (Some nd)
  show ?thesis
  proof (cases nd)
    case (Regular bytes)
    with Some show ?thesis by simp
  next
    case Directory
    with Some assms show ?thesis by (simp add: getstatus_Directory)
  qed
qed

lemma getstatus_known_hasstatus:
  "getstatus m bufsz ctx fs \<noteq> ''UNKNOWN'' \<Longrightarrow> hasstatus m ctx fs"
  using getstatus_known_Regular [of m bufsz ctx fs] by (auto simp: hasstatus_iff)

lemma rmstatus_removes:
  "getstatus m bufsz ctx fs \<noteq> ''UNKNOWN'' \<Longrightarrow> \<not> hasstatus m ctx (rmstatus m ctx fs)"
  using getstatus_known_Regular [of m bufsz ctx fs]
  by (auto simp: hasstatus_iff rmstatus_def)

lemma known_item_cases:
  "itm < VECTOR_TASK_METRIC_COUNT \<Longrightarrow>
   itm = 0 \<or> itm = 1 \<or> itm = 2 \<or> itm = 3 \<or> itm = 4 \<or> itm = 5 \<or> itm = 6 \<or> itm = 7
   \<or> itm = 8 \<or> itm = 9 \<or> itm = 10"
  unfolding VECTOR_TASK_METRIC_COUNT_def by arith

lemma tasknames_nth:
  "tasknames ! 0 = ''cpuflamegraph''"
  "tasknames ! 1 = ''disklatencyheatmap''"
  "tasknames ! Suc 0 = ''disklatencyheatmap''"
  "tasknames ! 2 = ''jstackflamegraph''"
  "tasknames ! 3 = ''pnamecpuflamegraph''"
  "tasknames ! 4 = ''uninlinedcpuflamegraph''"
  "tasknames ! 5 = ''pagefaultflamegraph''"
  "tasknames ! 6 = ''diskioflamegraph''"
  "tasknames ! 7 = ''ipcflamegraph''"
  "tasknames ! 8 = ''cswflamegraph''"
  "tasknames ! 9 = ''offcpuflamegraph''"
  "tasknames ! 10 = ''offwakeflamegraph''"
  by (simp_all add: tasknames_def)

text \<open>The fetch of a known metric, with the three branches of the switch read as one.\<close>

lemma fetch_known:
  assumes "itm < VECTOR_TASK_METRIC_COUNT"
  shows "vector_fetchCallBack 0 itm PM_IN_NULL ctx s =
     (if hasstatus (tasknames ! itm) ctx (files s) then
        if getstatus (tasknames ! itm) 256 ctx (files s) = ''DONE'' then
          (PMDA_FETCH_STATIC,
           Some (if takes_argument itm
                 then ''DONE '' @ tasknames ! itm @ ''/'' @ tasknames ! itm @ ''.''
                        @ fmt_d ctx @ ''.svg''
                 else ''DONE''),
           s\<lparr>files := rmstatus (tasknames ! itm) ctx (files s)\<rparr>)
        else (PMDA_FETCH_STATIC, Some (getstatus (tasknames ! itm) 256 ctx (files s)), s)
      else (PMDA_FETCH_STATIC, Some ''IDLE'', s))"
  using known_item_cases [OF assms]
  by (elim disjE)
     (simp_all add: vector_fetchCallBack_def task_ids tasknames_nth takes_argument_def Let_def)

text \<open>The store on a known metric, with the three branches of the switch read as one.\<close>

lemma sprintf_cmd_fits:
  assumes "itm < VECTOR_TASK_METRIC_COUNT" "length secs \<le> 201"
  shows "sprintf_cmd (tasknames ! itm) secs
           = Some (VECTOR_DIR @ ''/'' @ tasknames ! itm @ ''.sh '' @ secs @ '' &'')"
  using known_item_cases [OF assms(1)] assms(2)
  by (elim disjE) (simp_all add: sprintf_cmd_def VECTOR_DIR_def tasknames_nth Let_def)

lemma not_takes_argument:
  "itm < VECTOR_TASK_METRIC_COUNT \<Longrightarrow> \<not> takes_argument itm \<Longrightarrow>
   itm = VECTOR_TASK_DISKLATENCYHEATMAP \<or> itm = VECTOR_TASK_JSTACKFLAMEGRAPH"
  unfolding takes_argument_def task_ids by arith

lemma takes_argument_known: "takes_argument itm \<Longrightarrow> itm < VECTOR_TASK_METRIC_COUNT"
  unfolding takes_argument_def task_ids by arith

lemma not_takes_argument_simps:
  "\<not> takes_argument VECTOR_TASK_DISKLATENCYHEATMAP"
  "\<not> takes_argument VECTOR_TASK_JSTACKFLAMEGRAPH"
  "VECTOR_TASK_JSTACKFLAMEGRAPH \<noteq> VECTOR_TASK_DISKLATENCYHEATMAP"
  "tasknames ! VECTOR_TASK_DISKLATENCYHEATMAP = ''disklatencyheatmap''"
  "tasknames ! VECTOR_TASK_JSTACKFLAMEGRAPH = ''jstackflamegraph''"
  by (simp_all add: takes_argument_def task_ids tasknames_nth)

lemma store_takes_argument:
  assumes "takes_argument itm"
  shows "vector_store \<lparr>cluster = 0, item = itm, numval = 1, extracted = arg\<rparr> ctx rc err s =
     (if arg \<noteq> None \<and> badinput (secs_of arg)
      then Some (PM_ERR_BADSTORE, s\<lparr>environ := (environ s)(''PCP_CONTEXT'' \<mapsto> fmt_d ctx)\<rparr>)
      else if busy itm ctx (files s)
      then Some (PM_ERR_AGAIN, s\<lparr>environ := (environ s)(''PCP_CONTEXT'' \<mapsto> fmt_d ctx)\<rparr>)
      else (case sprintf_cmd (tasknames ! itm) (secs_of arg) of
              None \<Rightarrow> None
            | Some cmd \<Rightarrow>
                Some (RET_0, run_system cmd rc err
                       (s\<lparr>environ := (environ s)(''PCP_CONTEXT'' \<mapsto> fmt_d ctx)\<rparr>))))"
  using assms
  by (cases arg) (simp_all add: vector_store_def Let_def busy_def strstr_Some_0 secs_of_def)

lemma store_ignores_argument:
  assumes "itm < VECTOR_TASK_METRIC_COUNT" "\<not> takes_argument itm"
  shows "vector_store \<lparr>cluster = 0, item = itm, numval = 1, extracted = arg\<rparr> ctx rc err s =
     (if busy itm ctx (files s)
      then Some (PM_ERR_AGAIN, s\<lparr>environ := (environ s)(''PCP_CONTEXT'' \<mapsto> fmt_d ctx)\<rparr>)
      else Some (RET_0, run_system (command_of itm (secs_of arg)) rc err
                   (s\<lparr>environ := (environ s)(''PCP_CONTEXT'' \<mapsto> fmt_d ctx)\<rparr>)))"
  using not_takes_argument [OF assms]
  by (elim disjE)
     (simp_all add: vector_store_def Let_def busy_def strstr_Some_0 command_of_def
        not_takes_argument_simps)

lemma store_known:
  assumes "itm < VECTOR_TASK_METRIC_COUNT"
    and "\<not> badinput (secs_of arg)" and "length (secs_of arg) \<le> 201"
  shows "vector_store \<lparr>cluster = 0, item = itm, numval = 1, extracted = arg\<rparr> ctx rc err s =
     (if busy itm ctx (files s)
      then Some (PM_ERR_AGAIN, s\<lparr>environ := (environ s)(''PCP_CONTEXT'' \<mapsto> fmt_d ctx)\<rparr>)
      else Some (RET_0, run_system (command_of itm (secs_of arg)) rc err
                   (s\<lparr>environ := (environ s)(''PCP_CONTEXT'' \<mapsto> fmt_d ctx)\<rparr>)))"
proof (cases "takes_argument itm")
  case True
  with assms(2) sprintf_cmd_fits [OF assms(1,3)] show ?thesis
    by (simp add: store_takes_argument command_of_def)
next
  case False
  with assms(1) show ?thesis by (rule store_ignores_argument)
qed

text \<open>The range test of \<open>badinput\<close> accepts the ten decimal digits and nothing else.\<close>

lemma of_char_digits:
  "of_char CHR ''0'' = (48::nat)" "of_char CHR ''1'' = (49::nat)" "of_char CHR ''2'' = (50::nat)"
  "of_char CHR ''3'' = (51::nat)" "of_char CHR ''4'' = (52::nat)" "of_char CHR ''5'' = (53::nat)"
  "of_char CHR ''6'' = (54::nat)" "of_char CHR ''7'' = (55::nat)" "of_char CHR ''8'' = (56::nat)"
  "of_char CHR ''9'' = (57::nat)"
  by simp_all

lemma digit_range: "is_digit c \<longleftrightarrow> \<not> (c < CHR ''0'' \<or> c > CHR ''9'')"
proof -
  let ?n = "of_char c :: nat"
  have ord: "\<not> (c < CHR ''0'' \<or> c > CHR ''9'') \<longleftrightarrow> 48 \<le> ?n \<and> ?n \<le> 57"
    unfolding less_char_def of_char_digits by auto
  have "48 \<le> ?n \<and> ?n \<le> 57 \<longleftrightarrow>
        ?n = 48 \<or> ?n = 49 \<or> ?n = 50 \<or> ?n = 51 \<or> ?n = 52 \<or> ?n = 53 \<or> ?n = 54
        \<or> ?n = 55 \<or> ?n = 56 \<or> ?n = 57"
    by arith
  also have "\<dots> \<longleftrightarrow>
        ?n = of_char CHR ''0'' \<or> ?n = of_char CHR ''1'' \<or> ?n = of_char CHR ''2''
        \<or> ?n = of_char CHR ''3'' \<or> ?n = of_char CHR ''4'' \<or> ?n = of_char CHR ''5''
        \<or> ?n = of_char CHR ''6'' \<or> ?n = of_char CHR ''7'' \<or> ?n = of_char CHR ''8''
        \<or> ?n = of_char CHR ''9''"
    by (simp only: of_char_digits)
  also have "\<dots> \<longleftrightarrow> is_digit c"
    by (simp only: of_char_eq_iff is_digit_def) auto
  finally show ?thesis using ord by simp
qed

lemma unknown_item:
  assumes "\<not> itm < VECTOR_TASK_METRIC_COUNT"
  shows "\<not> takes_argument itm" "itm \<noteq> VECTOR_TASK_DISKLATENCYHEATMAP"
    "itm \<noteq> VECTOR_TASK_JSTACKFLAMEGRAPH"
  using assms by (auto simp: takes_argument_def task_ids)

lemma fetch_unchanged:
  assumes "itm < VECTOR_TASK_METRIC_COUNT"
    and "hasstatus (tasknames ! itm) ctx (files s) \<longrightarrow>
         getstatus (tasknames ! itm) 256 ctx (files s) \<noteq> ''DONE''"
  shows "vector_fetchCallBack 0 itm PM_IN_NULL ctx s =
     (PMDA_FETCH_STATIC,
      Some (if hasstatus (tasknames ! itm) ctx (files s)
            then getstatus (tasknames ! itm) 256 ctx (files s) else ''IDLE''),
      s)"
  using assms(2) by (simp add: fetch_known [OF assms(1)])

lemma fetches_unchanged:
  assumes "itm < VECTOR_TASK_METRIC_COUNT"
    and "hasstatus (tasknames ! itm) ctx (files s) \<longrightarrow>
         getstatus (tasknames ! itm) 256 ctx (files s) \<noteq> ''DONE''"
  shows "fetches n itm ctx s =
     (replicate n
        (Some (if hasstatus (tasknames ! itm) ctx (files s)
               then getstatus (tasknames ! itm) 256 ctx (files s) else ''IDLE'')),
      s)"
  by (induction n) (simp_all add: fetch_unchanged [OF assms])

text \<open>Facts about the concrete runs used below.\<close>

lemma cpu_known:
  "VECTOR_TASK_CPUFLAMEGRAPH < VECTOR_TASK_METRIC_COUNT"
  "tasknames ! VECTOR_TASK_CPUFLAMEGRAPH = ''cpuflamegraph''"
  "takes_argument VECTOR_TASK_CPUFLAMEGRAPH"
  by (simp_all add: task_ids tasknames_nth takes_argument_def)

lemma uninlined_known:
  "VECTOR_TASK_UNINLINEDCPUFLAMEGRAPH < VECTOR_TASK_METRIC_COUNT"
  "tasknames ! VECTOR_TASK_UNINLINEDCPUFLAMEGRAPH = ''uninlinedcpuflamegraph''"
  "takes_argument VECTOR_TASK_UNINLINEDCPUFLAMEGRAPH"
  by (simp_all add: task_ids tasknames_nth takes_argument_def)

text \<open>
  A command line that does not fit: 202 digits are a valid argument, and with the longest
  task name the command line is 256 characters long, one more than \<open>cmd\<close> can hold
  with its NUL.
\<close>

lemma badinput_replicate_digit: "\<not> badinput (replicate n CHR ''1'')"
  by (induction n) simp_all

lemma store_overruns:
  assumes "\<not> busy VECTOR_TASK_UNINLINEDCPUFLAMEGRAPH ctx (files s)"
  shows "vector_store
     \<lparr>cluster = 0, item = VECTOR_TASK_UNINLINEDCPUFLAMEGRAPH, numval = 1,
      extracted = Some (replicate 202 CHR ''1'')\<rparr>
     ctx rc err s = None"
proof -
  have c: "sprintf_cmd ''uninlinedcpuflamegraph'' (replicate 202 CHR ''1'') = None"
    by (simp add: sprintf_cmd_def VECTOR_DIR_def Let_def)
  show ?thesis
    using assms c
    by (simp add: store_takes_argument [OF uninlined_known(3)] uninlined_known(2) secs_of_def
          badinput_replicate_digit)
qed

subsection \<open>Unknown metrics\<close>

text \<open>
  Claim C6. An item outside the known set makes both operations return \<open>PM_ERR_PMID\<close>,
  whatever the context and the state: the store for every cluster, number of values and
  argument, leaving files and launches as they were; the fetch of the metric (which has
  no instance domain, so the instance is \<open>PM_IN_NULL\<close>) without writing the atom.
\<close>

theorem unknown_task_rejected:
  assumes "\<not> itm < VECTOR_TASK_METRIC_COUNT"
  shows "(\<exists>s'. vector_store \<lparr>cluster = clu, item = itm, numval = nv, extracted = arg\<rparr>
                 ctx rc err s = Some (PM_ERR_PMID, s')
              \<and> files s' = files s \<and> launched s' = launched s)
         \<and> vector_fetchCallBack clu itm PM_IN_NULL ctx s = (PM_ERR_PMID, None, s)"
  using unknown_item [OF assms]
  by (simp add: vector_store_def vector_fetchCallBack_def Let_def)

theorem unknown_task_rejected_witness:
  "(\<exists>s'. vector_store \<lparr>cluster = 0, item = 11, numval = 1, extracted = Some ''30''\<rparr>
            7 0 [] (state_with_files []) = Some (PM_ERR_PMID, s')
         \<and> files s' = files (state_with_files [])
         \<and> launched s' = launched (state_with_files []))
   \<and> vector_fetchCallBack 0 11 PM_IN_NULL 7 (state_with_files [])
       = (PM_ERR_PMID, None, state_with_files [])"
proof -
  have "\<not> (11::nat) < VECTOR_TASK_METRIC_COUNT" by (simp add: task_ids)
  from unknown_task_rejected [OF this] show ?thesis .
qed

subsection \<open>Fetches that change nothing\<close>

text \<open>
  Of the status read, fetch is idempotent: by \<open>fetch_unchanged\<close> and
  \<open>fetches_unchanged\<close>, a fetch that finds no status file returns \<open>"IDLE"\<close>, one
  that reads a status other than \<open>"DONE"\<close> returns it, both leave the state as it was,
  and so do any number of them in a row.
\<close>

text \<open>
  Claim C7. Of the record itself the claim fails, because \<open>getstatus\<close> overwrites the
  last byte it has read without looking at it. A status file that holds the progress
  message \<open>DONEX\<close> without a newline after it is a record that is not terminal, yet it
  is read as \<open>"DONE"\<close>: the first fetch returns the done message and removes the
  file, and the second fetch returns \<open>"IDLE"\<close>.
\<close>

theorem progress_without_newline_deleted:
  "spec_get (Some (Regular ''DONEX'')) = ''DONEX''
   \<and> fst (fetches 2 VECTOR_TASK_CPUFLAMEGRAPH 7
        (state_with_files [(statuspath ''cpuflamegraph'' 7, Regular ''DONEX'')]))
     = [Some ''DONE cpuflamegraph/cpuflamegraph.7.svg'', Some ''IDLE'']
   \<and> \<not> hasstatus ''cpuflamegraph'' 7
         (files (snd (snd (vector_fetchCallBack 0 VECTOR_TASK_CPUFLAMEGRAPH PM_IN_NULL 7
            (state_with_files [(statuspath ''cpuflamegraph'' 7, Regular ''DONEX'')])))))"
proof -
  let ?s = "state_with_files [(statuspath ''cpuflamegraph'' 7, Regular ''DONEX'')]"
  let ?s' = "?s\<lparr>files := rmstatus ''cpuflamegraph'' 7 (files ?s)\<rparr>"
  have sp: "spec_get (Some (Regular ''DONEX'')) = ''DONEX''"
    by (simp add: spec_get_def strip_trailing_newline_def)
  have g: "getstatus (tasknames ! VECTOR_TASK_CPUFLAMEGRAPH) 256 7 (files ?s) = ''DONE''"
    by (simp add: cpu_known getstatus_Regular state_with_files_def cstring_def)
  have u: "getstatus ''cpuflamegraph'' 256 7 (files ?s) \<noteq> ''UNKNOWN''"
    using g by (simp add: cpu_known)
  have h: "hasstatus ''cpuflamegraph'' 7 (files ?s)"
    using u by (rule getstatus_known_hasstatus)
  have r: "\<not> hasstatus ''cpuflamegraph'' 7 (rmstatus ''cpuflamegraph'' 7 (files ?s))"
    using u by (rule rmstatus_removes)
  have f: "fmt_d 7 = ''7''"
    by (simp add: fmt_d_def dec_digits.simps)
  have f1: "vector_fetchCallBack 0 VECTOR_TASK_CPUFLAMEGRAPH PM_IN_NULL 7 ?s
      = (PMDA_FETCH_STATIC, Some ''DONE cpuflamegraph/cpuflamegraph.7.svg'', ?s')"
    using g h by (simp add: fetch_known [OF cpu_known(1)] cpu_known f)
  have f2: "vector_fetchCallBack 0 VECTOR_TASK_CPUFLAMEGRAPH PM_IN_NULL 7 ?s'
      = (PMDA_FETCH_STATIC, Some ''IDLE'', ?s')"
    using r by (simp add: fetch_known [OF cpu_known(1)] cpu_known)
  have "fetches 2 VECTOR_TASK_CPUFLAMEGRAPH 7 ?s
      = ([Some ''DONE cpuflamegraph/cpuflamegraph.7.svg'', Some ''IDLE''], ?s')"
    by (simp add: numeral_2_eq_2 f1 f2)
  then show ?thesis
    using sp r by (simp add: f1)
qed

subsection \<open>The status \<open>DONE\<close>\<close>

text \<open>
  Claim C1, as amended. When the status read for a known metric is exactly \<open>"DONE"\<close>,
  the fetch deletes the status file, and a fetch that follows returns \<open>"IDLE"\<close> and
  leaves the state alone. What the first fetch returns depends on the task: for the nine
  tasks of the first group it is \<open>"DONE name/name.ctx.svg"\<close>, made from the task name
  and the context; for \<open>disklatencyheatmap\<close> and \<open>jstackflamegraph\<close> it is \<open>"DONE"\<close>
  as read.
\<close>

theorem done_fetched_once:
  assumes "itm < VECTOR_TASK_METRIC_COUNT"
    and "getstatus (tasknames ! itm) 256 ctx (files s) = ''DONE''"
  shows "vector_fetchCallBack 0 itm PM_IN_NULL ctx s =
           (PMDA_FETCH_STATIC,
            Some (if takes_argument itm
                  then ''DONE '' @ tasknames ! itm @ ''/'' @ tasknames ! itm @ ''.''
                         @ fmt_d ctx @ ''.svg''
                  else ''DONE''),
            s\<lparr>files := rmstatus (tasknames ! itm) ctx (files s)\<rparr>)
         \<and> \<not> hasstatus (tasknames ! itm) ctx (rmstatus (tasknames ! itm) ctx (files s))
         \<and> vector_fetchCallBack 0 itm PM_IN_NULL ctx
             (s\<lparr>files := rmstatus (tasknames ! itm) ctx (files s)\<rparr>) =
           (PMDA_FETCH_STATIC, Some ''IDLE'',
            s\<lparr>files := rmstatus (tasknames ! itm) ctx (files s)\<rparr>)"
proof -
  have u: "getstatus (tasknames ! itm) 256 ctx (files s) \<noteq> ''UNKNOWN''"
    using assms(2) by simp
  have h: "hasstatus (tasknames ! itm) ctx (files s)"
    using u by (rule getstatus_known_hasstatus)
  have r: "\<not> hasstatus (tasknames ! itm) ctx (rmstatus (tasknames ! itm) ctx (files s))"
    using u by (rule rmstatus_removes)
  show ?thesis
    using h r assms(2) by (simp add: fetch_known [OF assms(1)])
qed

theorem done_fetched_once_witness:
  "vector_fetchCallBack 0 VECTOR_TASK_CPUFLAMEGRAPH PM_IN_NULL 7
     (state_with_files [(statuspath ''cpuflamegraph'' 7, Regular ''DONE\<newline>'')])
   = (PMDA_FETCH_STATIC, Some ''DONE cpuflamegraph/cpuflamegraph.7.svg'',
      (state_with_files [(statuspath ''cpuflamegraph'' 7, Regular ''DONE\<newline>'')])
        \<lparr>files := rmstatus ''cpuflamegraph'' 7
           (files (state_with_files [(statuspath ''cpuflamegraph'' 7, Regular ''DONE\<newline>'')]))\<rparr>)
   \<and> vector_fetchCallBack 0 VECTOR_TASK_CPUFLAMEGRAPH PM_IN_NULL 7
     ((state_with_files [(statuspath ''cpuflamegraph'' 7, Regular ''DONE\<newline>'')])
        \<lparr>files := rmstatus ''cpuflamegraph'' 7
           (files (state_with_files [(statuspath ''cpuflamegraph'' 7, Regular ''DONE\<newline>'')]))\<rparr>)
   = (PMDA_FETCH_STATIC, Some ''IDLE'',
      (state_with_files [(statuspath ''cpuflamegraph'' 7, Regular ''DONE\<newline>'')])
        \<lparr>files := rmstatus ''cpuflamegraph'' 7
           (files (state_with_files [(statuspath ''cpuflamegraph'' 7, Regular ''DONE\<newline>'')]))\<rparr>)"
proof -
  let ?s = "state_with_files [(statuspath ''cpuflamegraph'' 7, Regular ''DONE\<newline>'')]"
  have k: "VECTOR_TASK_CPUFLAMEGRAPH < VECTOR_TASK_METRIC_COUNT"
    by (simp add: task_ids)
  have nm: "tasknames ! VECTOR_TASK_CPUFLAMEGRAPH = ''cpuflamegraph''"
    by (simp add: task_ids tasknames_nth)
  have t: "takes_argument VECTOR_TASK_CPUFLAMEGRAPH"
    by (simp add: takes_argument_def)
  have g: "getstatus (tasknames ! VECTOR_TASK_CPUFLAMEGRAPH) 256 7 (files ?s) = ''DONE''"
    by (simp add: nm getstatus_Regular state_with_files_def cstring_def)
  have f: "fmt_d 7 = ''7''"
    by (simp add: fmt_d_def dec_digits.simps)
  show ?thesis
    using done_fetched_once [OF k g] by (simp add: nm t f)
qed

text \<open>
  The claim as first stated fails for \<open>disklatencyheatmap\<close>: with the record
  \<open>"DONE"\<close> in context 7 the fetch returns \<open>"DONE"\<close>, which holds neither the task
  name nor the context.
\<close>

theorem done_heatmap_verbatim:
  "getstatus ''disklatencyheatmap'' 256 7
     (files (state_with_files [(statuspath ''disklatencyheatmap'' 7, Regular ''DONE\<newline>'')]))
   = ''DONE''
   \<and> fst (snd (vector_fetchCallBack 0 VECTOR_TASK_DISKLATENCYHEATMAP PM_IN_NULL 7
        (state_with_files [(statuspath ''disklatencyheatmap'' 7, Regular ''DONE\<newline>'')])))
   = Some ''DONE''
   \<and> \<not> sublist ''disklatencyheatmap'' ''DONE''
   \<and> \<not> sublist (fmt_d 7) ''DONE''"
proof -
  let ?s = "state_with_files [(statuspath ''disklatencyheatmap'' 7, Regular ''DONE\<newline>'')]"
  have g: "getstatus ''disklatencyheatmap'' 256 7 (files ?s) = ''DONE''"
    by (simp add: getstatus_Regular state_with_files_def cstring_def)
  have h: "hasstatus ''disklatencyheatmap'' 7 (files ?s)"
    by (simp add: hasstatus_iff state_with_files_def)
  have v: "fst (snd (vector_fetchCallBack 0 VECTOR_TASK_DISKLATENCYHEATMAP PM_IN_NULL 7 ?s))
             = Some ''DONE''"
    by (simp add: vector_fetchCallBack_def not_takes_argument_simps g h)
  have f: "fmt_d 7 = ''7''"
    by (simp add: fmt_d_def dec_digits.simps)
  have n1: "\<not> sublist ''disklatencyheatmap'' ''DONE''"
    by (rule notI, drule sublist_length_le) simp
  have n2: "\<not> sublist (fmt_d 7) ''DONE''"
    unfolding f by (simp add: sublist_Cons_right)
  show ?thesis using g v n1 n2 by simp
qed

text \<open>
  Claim C2, as amended. When the status read for a known metric is \<open>"DONE"\<close> followed
  by a space and an argument, the fetch returns it as read and the status file stays: the
  state is unchanged, and every further fetch returns the same string.
\<close>

theorem done_with_argument_kept:
  assumes "itm < VECTOR_TASK_METRIC_COUNT"
    and "getstatus (tasknames ! itm) 256 ctx (files s) = ''DONE '' @ a"
  shows "vector_fetchCallBack 0 itm PM_IN_NULL ctx s
           = (PMDA_FETCH_STATIC, Some (''DONE '' @ a), s)
         \<and> hasstatus (tasknames ! itm) ctx (files s)
         \<and> fetches n itm ctx s = (replicate n (Some (''DONE '' @ a)), s)"
proof -
  have u: "getstatus (tasknames ! itm) 256 ctx (files s) \<noteq> ''UNKNOWN''"
    using assms(2) by simp
  have h: "hasstatus (tasknames ! itm) ctx (files s)"
    using u by (rule getstatus_known_hasstatus)
  have nd: "hasstatus (tasknames ! itm) ctx (files s) \<longrightarrow>
            getstatus (tasknames ! itm) 256 ctx (files s) \<noteq> ''DONE''"
    using assms(2) by simp
  show ?thesis
    using fetch_unchanged [OF assms(1) nd] fetches_unchanged [OF assms(1) nd, of n] h assms(2)
    by simp
qed

theorem done_with_argument_kept_witness:
  "vector_fetchCallBack 0 VECTOR_TASK_CPUFLAMEGRAPH PM_IN_NULL 7
     (state_with_files [(statuspath ''cpuflamegraph'' 7, Regular ''DONE out.svg\<newline>'')])
   = (PMDA_FETCH_STATIC, Some ''DONE out.svg'',
      state_with_files [(statuspath ''cpuflamegraph'' 7, Regular ''DONE out.svg\<newline>'')])
   \<and> hasstatus ''cpuflamegraph'' 7
       (files (state_with_files [(statuspath ''cpuflamegraph'' 7, Regular ''DONE out.svg\<newline>'')]))
   \<and> fetches 2 VECTOR_TASK_CPUFLAMEGRAPH 7
       (state_with_files [(statuspath ''cpuflamegraph'' 7, Regular ''DONE out.svg\<newline>'')])
   = ([Some ''DONE out.svg'', Some ''DONE out.svg''],
      state_with_files [(statuspath ''cpuflamegraph'' 7, Regular ''DONE out.svg\<newline>'')])"
proof -
  let ?s = "state_with_files [(statuspath ''cpuflamegraph'' 7, Regular ''DONE out.svg\<newline>'')]"
  have g: "getstatus (tasknames ! VECTOR_TASK_CPUFLAMEGRAPH) 256 7 (files ?s)
             = ''DONE '' @ ''out.svg''"
    by (simp add: cpu_known getstatus_Regular state_with_files_def cstring_def)
  show ?thesis
    using done_with_argument_kept [OF cpu_known(1) g, of 2]
    by (simp add: cpu_known numeral_2_eq_2)
qed

text \<open>
  The claim as first stated fails: with the record \<open>"DONE out.svg"\<close> the status file
  is still there after the fetch, and a second fetch delivers the same result again.
\<close>

theorem done_with_argument_not_deleted:
  "getstatus ''cpuflamegraph'' 256 7
     (files (state_with_files [(statuspath ''cpuflamegraph'' 7, Regular ''DONE out.svg\<newline>'')]))
   = ''DONE out.svg''
   \<and> fst (snd (vector_fetchCallBack 0 VECTOR_TASK_CPUFLAMEGRAPH PM_IN_NULL 7
        (state_with_files [(statuspath ''cpuflamegraph'' 7, Regular ''DONE out.svg\<newline>'')])))
   = Some ''DONE out.svg''
   \<and> hasstatus ''cpuflamegraph'' 7
       (files (snd (snd (vector_fetchCallBack 0 VECTOR_TASK_CPUFLAMEGRAPH PM_IN_NULL 7
          (state_with_files [(statuspath ''cpuflamegraph'' 7, Regular ''DONE out.svg\<newline>'')])))))
   \<and> fst (fetches 2 VECTOR_TASK_CPUFLAMEGRAPH 7
        (state_with_files [(statuspath ''cpuflamegraph'' 7, Regular ''DONE out.svg\<newline>'')]))
   = [Some ''DONE out.svg'', Some ''DONE out.svg'']"
proof -
  let ?s = "state_with_files [(statuspath ''cpuflamegraph'' 7, Regular ''DONE out.svg\<newline>'')]"
  have g: "getstatus ''cpuflamegraph'' 256 7 (files ?s) = ''DONE out.svg''"
    by (simp add: getstatus_Regular state_with_files_def cstring_def)
  have h: "hasstatus ''cpuflamegraph'' 7 (files ?s)"
    by (simp add: hasstatus_iff state_with_files_def)
  have v: "vector_fetchCallBack 0 VECTOR_TASK_CPUFLAMEGRAPH PM_IN_NULL 7 ?s
             = (PMDA_FETCH_STATIC, Some ''DONE out.svg'', ?s)"
    by (simp add: vector_fetchCallBack_def cpu_known g h)
  show ?thesis
    using g h v by (simp add: numeral_2_eq_2)
qed

subsection \<open>The status \<open>ERROR\<close>\<close>

text \<open>
  When the status read for a known metric begins with \<open>"ERROR"\<close>, a fetch returns it
  as read and leaves the state as it was, so that repeated fetches see the same error; and
  a store on the same metric and context after the fetch returns 0 and hands the command of
  the task to \<open>system\<close>, provided the argument is of digits only and of at most 201 of
  them.
\<close>

lemma error_status_durable:
  assumes "itm < VECTOR_TASK_METRIC_COUNT"
    and "prefix ''ERROR'' (getstatus (tasknames ! itm) 256 ctx (files s))"
    and "\<not> badinput (secs_of arg)" and "length (secs_of arg) \<le> 201"
  shows "vector_fetchCallBack 0 itm PM_IN_NULL ctx s
           = (PMDA_FETCH_STATIC, Some (getstatus (tasknames ! itm) 256 ctx (files s)), s)
         \<and> fetches n itm ctx s
           = (replicate n (Some (getstatus (tasknames ! itm) 256 ctx (files s))), s)
         \<and> (\<exists>s'. vector_store \<lparr>cluster = 0, item = itm, numval = 1, extracted = arg\<rparr>
                    ctx rc err (snd (snd (vector_fetchCallBack 0 itm PM_IN_NULL ctx s)))
                  = Some (RET_0, s')
                \<and> launched s' = launched s @ [command_of itm (secs_of arg)]
                \<and> files s' = files s)"
proof -
  let ?st = "getstatus (tasknames ! itm) 256 ctx (files s)"
  have nd: "?st \<noteq> ''DONE''" and u: "?st \<noteq> ''UNKNOWN''"
    using assms(2) by auto
  have h: "hasstatus (tasknames ! itm) ctx (files s)"
    using u by (rule getstatus_known_hasstatus)
  have nd': "hasstatus (tasknames ! itm) ctx (files s) \<longrightarrow> ?st \<noteq> ''DONE''"
    using nd by simp
  have f1: "vector_fetchCallBack 0 itm PM_IN_NULL ctx s = (PMDA_FETCH_STATIC, Some ?st, s)"
    using fetch_unchanged [OF assms(1) nd'] h by simp
  have f2: "fetches n itm ctx s = (replicate n (Some ?st), s)"
    using fetches_unchanged [OF assms(1) nd', of n] h by simp
  have nb: "\<not> busy itm ctx (files s)"
    using assms(2) by (simp add: busy_def)
  have st: "vector_store \<lparr>cluster = 0, item = itm, numval = 1, extracted = arg\<rparr> ctx rc err s
      = Some (RET_0, run_system (command_of itm (secs_of arg)) rc err
                (s\<lparr>environ := (environ s)(''PCP_CONTEXT'' \<mapsto> fmt_d ctx)\<rparr>))"
    using nb by (simp add: store_known [OF assms(1,3,4)])
  show ?thesis
    unfolding f1 f2 using st by (simp add: run_system_def Let_def)
qed

text \<open>
  Claim C4. Without that bound, and of the record itself, the claim fails. After the
  fetch of the record \<open>"ERROR disk full"\<close> a store with a valid argument of 202 digits
  does not return: \<open>sprintf\<close> writes past the end of \<open>cmd\<close>. And a status file that
  holds \<open>ERROR\<close> without a newline after it is read as \<open>"ERRO"\<close>, since
  \<open>getstatus\<close> overwrites the last byte it has read: the fetch does not return the
  content as it is, and the store that follows returns \<open>PM_ERR_AGAIN\<close>.
\<close>

theorem error_then_store_fails:
  "fst (snd (vector_fetchCallBack 0 VECTOR_TASK_UNINLINEDCPUFLAMEGRAPH PM_IN_NULL 7
      (state_with_files
         [(statuspath ''uninlinedcpuflamegraph'' 7, Regular ''ERROR disk full\<newline>'')])))
   = Some ''ERROR disk full''
   \<and> \<not> badinput (replicate 202 CHR ''1'')
   \<and> vector_store
       \<lparr>cluster = 0, item = VECTOR_TASK_UNINLINEDCPUFLAMEGRAPH, numval = 1,
        extracted = Some (replicate 202 CHR ''1'')\<rparr>
       7 0 []
       (snd (snd (vector_fetchCallBack 0 VECTOR_TASK_UNINLINEDCPUFLAMEGRAPH PM_IN_NULL 7
          (state_with_files
             [(statuspath ''uninlinedcpuflamegraph'' 7, Regular ''ERROR disk full\<newline>'')]))))
     = None
   \<and> spec_get (Some (Regular ''ERROR'')) = ''ERROR''
   \<and> fst (snd (vector_fetchCallBack 0 VECTOR_TASK_CPUFLAMEGRAPH PM_IN_NULL 7
      (state_with_files [(statuspath ''cpuflamegraph'' 7, Regular ''ERROR'')])))
   = Some ''ERRO''
   \<and> map_option fst
       (vector_store
          \<lparr>cluster = 0, item = VECTOR_TASK_CPUFLAMEGRAPH, numval = 1, extracted = Some ''30''\<rparr>
          7 0 []
          (snd (snd (vector_fetchCallBack 0 VECTOR_TASK_CPUFLAMEGRAPH PM_IN_NULL 7
             (state_with_files [(statuspath ''cpuflamegraph'' 7, Regular ''ERROR'')])))))
     = Some PM_ERR_AGAIN"
proof -
  let ?s = "state_with_files
              [(statuspath ''uninlinedcpuflamegraph'' 7, Regular ''ERROR disk full\<newline>'')]"
  let ?t = "state_with_files [(statuspath ''cpuflamegraph'' 7, Regular ''ERROR'')]"
  have gs: "getstatus (tasknames ! VECTOR_TASK_UNINLINEDCPUFLAMEGRAPH) 256 7 (files ?s)
              = ''ERROR disk full''"
    by (simp add: uninlined_known getstatus_Regular state_with_files_def cstring_def)
  have nd: "hasstatus (tasknames ! VECTOR_TASK_UNINLINEDCPUFLAMEGRAPH) 7 (files ?s) \<longrightarrow>
            getstatus (tasknames ! VECTOR_TASK_UNINLINEDCPUFLAMEGRAPH) 256 7 (files ?s) \<noteq> ''DONE''"
    by (simp add: gs)
  have hs: "hasstatus (tasknames ! VECTOR_TASK_UNINLINEDCPUFLAMEGRAPH) 7 (files ?s)"
    by (simp add: uninlined_known hasstatus_iff state_with_files_def)
  have fs: "vector_fetchCallBack 0 VECTOR_TASK_UNINLINEDCPUFLAMEGRAPH PM_IN_NULL 7 ?s
              = (PMDA_FETCH_STATIC, Some ''ERROR disk full'', ?s)"
    using fetch_unchanged [OF uninlined_known(1) nd] hs gs by simp
  have bs: "\<not> busy VECTOR_TASK_UNINLINEDCPUFLAMEGRAPH 7 (files ?s)"
    by (simp add: busy_def gs)
  have gt: "getstatus (tasknames ! VECTOR_TASK_CPUFLAMEGRAPH) 256 7 (files ?t) = ''ERRO''"
    by (simp add: cpu_known getstatus_Regular state_with_files_def cstring_def)
  have ht: "hasstatus (tasknames ! VECTOR_TASK_CPUFLAMEGRAPH) 7 (files ?t)"
    by (simp add: cpu_known hasstatus_iff state_with_files_def)
  have ndt: "hasstatus (tasknames ! VECTOR_TASK_CPUFLAMEGRAPH) 7 (files ?t) \<longrightarrow>
            getstatus (tasknames ! VECTOR_TASK_CPUFLAMEGRAPH) 256 7 (files ?t) \<noteq> ''DONE''"
    by (simp add: gt)
  have ft: "vector_fetchCallBack 0 VECTOR_TASK_CPUFLAMEGRAPH PM_IN_NULL 7 ?t
              = (PMDA_FETCH_STATIC, Some ''ERRO'', ?t)"
    using fetch_unchanged [OF cpu_known(1) ndt] ht gt by simp
  have bt: "busy VECTOR_TASK_CPUFLAMEGRAPH 7 (files ?t)"
    using ht gt by (simp add: busy_def)
  have st: "vector_store
          \<lparr>cluster = 0, item = VECTOR_TASK_CPUFLAMEGRAPH, numval = 1, extracted = Some ''30''\<rparr>
          7 0 [] ?t
        = Some (PM_ERR_AGAIN, ?t\<lparr>environ := (environ ?t)(''PCP_CONTEXT'' \<mapsto> fmt_d 7)\<rparr>)"
    using bt by (simp add: store_takes_argument [OF cpu_known(3)] secs_of_def)
  have sp: "spec_get (Some (Regular ''ERROR'')) = ''ERROR''"
    by (simp add: spec_get_def strip_trailing_newline_def)
  show ?thesis
    unfolding fs ft
    using store_overruns [OF bs] st sp badinput_replicate_digit [of 202] by simp
qed

subsection \<open>The busy test of the store\<close>

lemma run_system_fields:
  "launched (run_system cmd rc err s) = launched s @ [cmd]"
  "files (run_system cmd rc err s) = files s"
  "errlog (run_system cmd rc err s)
     = (if rc \<noteq> 0 then errlog s @ [''system failed: '' @ err] else errlog s)"
  by (simp_all add: run_system_def Let_def)

text \<open>
  The bound of 201 characters on the argument is what keeps the command line inside
  \<open>cmd\<close> for every task name; with 202 digits the command of the longest name needs
  257 bytes.
\<close>

lemma cmd_overflow:
  "vector_store
     \<lparr>cluster = 0, item = VECTOR_TASK_UNINLINEDCPUFLAMEGRAPH, numval = 1,
      extracted = Some (replicate 202 CHR ''1'')\<rparr>
     ctx rc err (state_with_files []) = None"
proof -
  have t: "takes_argument VECTOR_TASK_UNINLINEDCPUFLAMEGRAPH"
    by (simp add: takes_argument_def)
  have n: "tasknames ! VECTOR_TASK_UNINLINEDCPUFLAMEGRAPH = ''uninlinedcpuflamegraph''"
    by (simp add: task_ids tasknames_nth)
  have h: "\<not> busy VECTOR_TASK_UNINLINEDCPUFLAMEGRAPH ctx (files (state_with_files []))"
    by (simp add: busy_def hasstatus_iff state_with_files_def)
  have c: "sprintf_cmd ''uninlinedcpuflamegraph'' (replicate 202 CHR ''1'') = None"
    by (simp add: sprintf_cmd_def VECTOR_DIR_def Let_def)
  show ?thesis
    using h c by (simp add: store_takes_argument [OF t] n secs_of_def badinput_replicate_digit)
qed

text \<open>
  Claim C3, as amended. For a known metric with a status file, a store that passes the
  earlier steps of \<open>vector_store\<close> (one value, an argument of digits only, at most 201
  of them) returns \<open>PM_ERR_AGAIN\<close> if and only if the status read is neither exactly
  \<open>"DONE"\<close> nor begins with \<open>"ERROR"\<close>. For \<open>"DONE"\<close>, \<open>"ERROR"\<close> and
  \<open>"ERROR message"\<close> it returns 0 and hands the command of the task to \<open>system\<close>; for
  \<open>"DONE argument"\<close> it returns \<open>PM_ERR_AGAIN\<close>, as for any other status.
\<close>

theorem busy_iff_neither_done_nor_error:
  assumes "itm < VECTOR_TASK_METRIC_COUNT"
    and "hasstatus (tasknames ! itm) ctx (files s)"
    and "\<not> badinput (secs_of arg)" and "length (secs_of arg) \<le> 201"
  shows "(map_option fst
            (vector_store \<lparr>cluster = 0, item = itm, numval = 1, extracted = arg\<rparr> ctx rc err s)
            = Some PM_ERR_AGAIN
          \<longleftrightarrow> getstatus (tasknames ! itm) 256 ctx (files s) \<noteq> ''DONE''
              \<and> \<not> prefix ''ERROR'' (getstatus (tasknames ! itm) 256 ctx (files s)))
         \<and> (getstatus (tasknames ! itm) 256 ctx (files s) = ''DONE''
              \<or> prefix ''ERROR'' (getstatus (tasknames ! itm) 256 ctx (files s))
            \<longrightarrow> (\<exists>s'. vector_store \<lparr>cluster = 0, item = itm, numval = 1, extracted = arg\<rparr>
                         ctx rc err s = Some (RET_0, s')
                       \<and> launched s' = launched s @ [command_of itm (secs_of arg)]))
         \<and> (prefix ''DONE '' (getstatus (tasknames ! itm) 256 ctx (files s))
            \<longrightarrow> map_option fst
                  (vector_store \<lparr>cluster = 0, item = itm, numval = 1, extracted = arg\<rparr>
                     ctx rc err s)
                = Some PM_ERR_AGAIN)"
proof -
  let ?st = "getstatus (tasknames ! itm) 256 ctx (files s)"
  have b: "busy itm ctx (files s) \<longleftrightarrow> ?st \<noteq> ''DONE'' \<and> \<not> prefix ''ERROR'' ?st"
    using assms(2) by (simp add: busy_def)
  have d: "prefix ''DONE '' ?st \<Longrightarrow> ?st \<noteq> ''DONE'' \<and> \<not> prefix ''ERROR'' ?st"
    by (auto simp: prefix_def)
  show ?thesis
    using b d by (auto simp add: store_known [OF assms(1,3,4)] run_system_fields)
qed

theorem busy_iff_neither_done_nor_error_witness:
  "(\<exists>s'. vector_store
           \<lparr>cluster = 0, item = VECTOR_TASK_CPUFLAMEGRAPH, numval = 1, extracted = Some ''30''\<rparr>
           7 0 [] (state_with_files [(statuspath ''cpuflamegraph'' 7, Regular ''DONE\<newline>'')])
         = Some (RET_0, s')
       \<and> launched s' = [''/var/lib/pcp/pmdas/vector/cpuflamegraph.sh 30 &''])
   \<and> map_option fst
       (vector_store
          \<lparr>cluster = 0, item = VECTOR_TASK_CPUFLAMEGRAPH, numval = 1, extracted = Some ''30''\<rparr>
          7 0 []
          (state_with_files [(statuspath ''cpuflamegraph'' 7, Regular ''profiling 50%\<newline>'')]))
     = Some PM_ERR_AGAIN"
proof -
  let ?s = "state_with_files [(statuspath ''cpuflamegraph'' 7, Regular ''DONE\<newline>'')]"
  let ?t = "state_with_files [(statuspath ''cpuflamegraph'' 7, Regular ''profiling 50%\<newline>'')]"
  have hs: "hasstatus (tasknames ! VECTOR_TASK_CPUFLAMEGRAPH) 7 (files ?s)"
    and ht: "hasstatus (tasknames ! VECTOR_TASK_CPUFLAMEGRAPH) 7 (files ?t)"
    by (simp_all add: cpu_known hasstatus_iff state_with_files_def)
  have gs: "getstatus (tasknames ! VECTOR_TASK_CPUFLAMEGRAPH) 256 7 (files ?s) = ''DONE''"
    and gt: "getstatus (tasknames ! VECTOR_TASK_CPUFLAMEGRAPH) 256 7 (files ?t) = ''profiling 50%''"
    by (simp_all add: cpu_known getstatus_Regular state_with_files_def cstring_def)
  have b: "\<not> badinput (secs_of (Some ''30''))" and l: "length (secs_of (Some ''30'')) \<le> 201"
    by (simp_all add: secs_of_def)
  have c: "command_of VECTOR_TASK_CPUFLAMEGRAPH (secs_of (Some ''30''))
             = ''/var/lib/pcp/pmdas/vector/cpuflamegraph.sh 30 &''"
    by (simp add: command_of_def cpu_known secs_of_def VECTOR_DIR_def)
  have e: "launched ?s = []"
    by (simp add: state_with_files_def)
  show ?thesis
    using busy_iff_neither_done_nor_error [OF cpu_known(1) hs b l, of 0 "[]"]
          busy_iff_neither_done_nor_error [OF cpu_known(1) ht b l, of 0 "[]"]
    unfolding gs gt c e by simp
qed

text \<open>
  The claim as first stated fails: with the record \<open>"DONE out.svg"\<close>, one of the
  terminal forms it lists, the store returns \<open>PM_ERR_AGAIN\<close>.
\<close>

theorem done_with_argument_is_busy:
  "getstatus ''cpuflamegraph'' 256 7
     (files (state_with_files [(statuspath ''cpuflamegraph'' 7, Regular ''DONE out.svg\<newline>'')]))
   = ''DONE out.svg''
   \<and> map_option fst
       (vector_store
          \<lparr>cluster = 0, item = VECTOR_TASK_CPUFLAMEGRAPH, numval = 1, extracted = Some ''30''\<rparr>
          7 0 []
          (state_with_files [(statuspath ''cpuflamegraph'' 7, Regular ''DONE out.svg\<newline>'')]))
     = Some PM_ERR_AGAIN"
proof -
  let ?s = "state_with_files [(statuspath ''cpuflamegraph'' 7, Regular ''DONE out.svg\<newline>'')]"
  have g: "getstatus ''cpuflamegraph'' 256 7 (files ?s) = ''DONE out.svg''"
    by (simp add: getstatus_Regular state_with_files_def cstring_def)
  have h: "hasstatus ''cpuflamegraph'' 7 (files ?s)"
    by (simp add: hasstatus_iff state_with_files_def)
  have bz: "busy VECTOR_TASK_CPUFLAMEGRAPH 7 (files ?s)"
    using g h by (simp add: busy_def cpu_known)
  have "vector_store
          \<lparr>cluster = 0, item = VECTOR_TASK_CPUFLAMEGRAPH, numval = 1, extracted = Some ''30''\<rparr>
          7 0 [] ?s
        = Some (PM_ERR_AGAIN, ?s\<lparr>environ := (environ ?s)(''PCP_CONTEXT'' \<mapsto> fmt_d 7)\<rparr>)"
    using bz by (simp add: store_takes_argument [OF cpu_known(3)] secs_of_def)
  then show ?thesis using g by simp
qed



subsection \<open>Launching\<close>

text \<open>
  For a known metric whose key is idle (\<open>busy\<close> is false: there is no status file, or
  the status read is \<open>"DONE"\<close> or begins with \<open>"ERROR"\<close>) and an argument of digits
  only, at most 201 of them, the store returns 0 whatever \<open>system\<close> returns: the
  command is handed to \<open>system\<close>, and when \<open>system\<close> fails the only trace is one
  line on the standard error stream.
\<close>

lemma launch_failure_not_surfaced:
  assumes "itm < VECTOR_TASK_METRIC_COUNT"
    and "\<not> busy itm ctx (files s)"
    and "\<not> badinput (secs_of arg)" and "length (secs_of arg) \<le> 201"
  shows "\<exists>s'. vector_store \<lparr>cluster = 0, item = itm, numval = 1, extracted = arg\<rparr>
                 ctx rc err s = Some (RET_0, s')
              \<and> launched s' = launched s @ [command_of itm (secs_of arg)]
              \<and> errlog s' = (if rc \<noteq> 0 then errlog s @ [''system failed: '' @ err]
                              else errlog s)
              \<and> files s' = files s"
  using assms(2) by (simp add: store_known [OF assms(1,3,4)] run_system_fields)

text \<open>
  Claim C8. For every valid argument the claim fails: a valid argument is any string of
  digits, and \<open>vector_store\<close> copies it into \<open>cmd\<close> without looking at its length.
  For \<open>uninlinedcpuflamegraph\<close> with an idle key and an argument of 202 digits the
  command line has 256 characters, \<open>sprintf\<close> writes its NUL past the end of \<open>cmd\<close>,
  and the store does not return 0.
\<close>

theorem launch_overruns_cmd:
  "\<not> badinput (replicate 202 CHR ''1'')
   \<and> \<not> hasstatus ''uninlinedcpuflamegraph'' 7 (files (state_with_files []))
   \<and> length (VECTOR_DIR @ ''/uninlinedcpuflamegraph.sh '' @ replicate 202 CHR ''1'' @ '' &'') = 256
   \<and> vector_store
       \<lparr>cluster = 0, item = VECTOR_TASK_UNINLINEDCPUFLAMEGRAPH, numval = 1,
        extracted = Some (replicate 202 CHR ''1'')\<rparr>
       7 (- 1) ''Cannot allocate memory'' (state_with_files []) = None"
proof -
  have h: "\<not> hasstatus ''uninlinedcpuflamegraph'' 7 (files (state_with_files []))"
    by (simp add: hasstatus_iff state_with_files_def)
  have b: "\<not> busy VECTOR_TASK_UNINLINEDCPUFLAMEGRAPH 7 (files (state_with_files []))"
    using h by (simp add: busy_def uninlined_known)
  have l: "length (VECTOR_DIR @ ''/uninlinedcpuflamegraph.sh '' @ replicate 202 CHR ''1'' @ '' &'')
             = 256"
    by (simp add: VECTOR_DIR_def)
  show ?thesis
    using h l store_overruns [OF b] badinput_replicate_digit [of 202] by simp
qed

subsection \<open>Validation of the argument\<close>

lemma badinput_digits: "badinput cp \<longleftrightarrow> \<not> (\<forall>c \<in> set cp. is_digit c)"
  by (auto simp: badinput_iff digit_range)

lemma store_never_badstore_ignoring:
  assumes "\<not> takes_argument itm"
  shows "\<exists>r s'. vector_store \<lparr>cluster = clu, item = itm, numval = nv, extracted = arg\<rparr>
                   ctx rc err s = Some (r, s') \<and> r \<noteq> PM_ERR_BADSTORE"
  using assms by (simp add: vector_store_def Let_def)

lemma store_empty_argument:
  "\<exists>r s'. vector_store \<lparr>cluster = clu, item = itm, numval = nv, extracted = Some []\<rparr>
             ctx rc err s = Some (r, s') \<and> r \<noteq> PM_ERR_BADSTORE"
proof (cases "takes_argument itm")
  case True
  have "sprintf_cmd (tasknames ! itm) [] \<noteq> None"
    using sprintf_cmd_fits [OF takes_argument_known [OF True], of "[]"] by simp
  then obtain cmd where "sprintf_cmd (tasknames ! itm) [] = Some cmd"
    by auto
  with True show ?thesis
    by (simp add: vector_store_def Let_def secs_of_def)
next
  case False
  then show ?thesis by (rule store_never_badstore_ignoring)
qed

text \<open>
  Claim C5, as amended. For the nine tasks of the first group, a store whose argument holds
  a character that is not a decimal digit returns \<open>PM_ERR_BADSTORE\<close>. For
  \<open>disklatencyheatmap\<close> and \<open>jstackflamegraph\<close> the argument is not read and no store
  returns \<open>PM_ERR_BADSTORE\<close>. A store with the empty argument never returns
  \<open>PM_ERR_BADSTORE\<close>, whatever the metric.
\<close>

theorem argument_validation:
  "(takes_argument itm \<and> \<not> (\<forall>c \<in> set cp. is_digit c) \<longrightarrow>
      vector_store \<lparr>cluster = 0, item = itm, numval = 1, extracted = Some cp\<rparr> ctx rc err s
        = Some (PM_ERR_BADSTORE, s\<lparr>environ := (environ s)(''PCP_CONTEXT'' \<mapsto> fmt_d ctx)\<rparr>))
   \<and> (\<exists>r s'. vector_store \<lparr>cluster = clu, item = itm, numval = nv, extracted = Some []\<rparr>
                ctx rc err s = Some (r, s') \<and> r \<noteq> PM_ERR_BADSTORE)
   \<and> (\<not> takes_argument itm \<longrightarrow>
        (\<exists>r s'. vector_store \<lparr>cluster = clu, item = itm, numval = nv, extracted = arg\<rparr>
                   ctx rc err s = Some (r, s') \<and> r \<noteq> PM_ERR_BADSTORE))"
proof -
  have a: "takes_argument itm \<and> \<not> (\<forall>c \<in> set cp. is_digit c) \<longrightarrow>
      vector_store \<lparr>cluster = 0, item = itm, numval = 1, extracted = Some cp\<rparr> ctx rc err s
        = Some (PM_ERR_BADSTORE, s\<lparr>environ := (environ s)(''PCP_CONTEXT'' \<mapsto> fmt_d ctx)\<rparr>)"
    by (simp add: store_takes_argument badinput_digits secs_of_def)
  show ?thesis
    using a store_empty_argument [of clu itm nv ctx rc err s]
      store_never_badstore_ignoring [of itm clu nv arg ctx rc err s]
    by blast
qed

theorem argument_validation_witness:
  "vector_store
     \<lparr>cluster = 0, item = VECTOR_TASK_CPUFLAMEGRAPH, numval = 1, extracted = Some ''30; reboot''\<rparr>
     7 0 [] (state_with_files [])
   = Some (PM_ERR_BADSTORE,
       (state_with_files [])\<lparr>environ := (environ (state_with_files []))(''PCP_CONTEXT'' \<mapsto> fmt_d 7)\<rparr>)
   \<and> (\<exists>r s'. vector_store
         \<lparr>cluster = 0, item = VECTOR_TASK_DISKLATENCYHEATMAP, numval = 1,
          extracted = Some ''30; reboot''\<rparr>
         7 0 [] (state_with_files []) = Some (r, s') \<and> r \<noteq> PM_ERR_BADSTORE)"
proof -
  have d: "\<not> (\<forall>c \<in> set ''30; reboot''. is_digit c)"
    by (simp add: is_digit_def)
  show ?thesis
    using argument_validation
            [of VECTOR_TASK_CPUFLAMEGRAPH "''30; reboot''" 7 0 "[]" "state_with_files []"]
          argument_validation
            [of VECTOR_TASK_DISKLATENCYHEATMAP _ 7 0 "[]" "state_with_files []" 0 1
                "Some ''30; reboot''"]
          d cpu_known(3) not_takes_argument_simps(1)
    by blast
qed

text \<open>
  The claim as first stated fails for \<open>disklatencyheatmap\<close>: a store with the argument
  \<open>"30; reboot"\<close> returns 0.
\<close>

theorem heatmap_argument_not_validated:
  "badinput ''30; reboot''
   \<and> map_option fst
       (vector_store
          \<lparr>cluster = 0, item = VECTOR_TASK_DISKLATENCYHEATMAP, numval = 1,
           extracted = Some ''30; reboot''\<rparr>
          7 0 [] (state_with_files []))
     = Some RET_0"
proof -
  have h: "\<not> hasstatus ''disklatencyheatmap'' 7 (files (state_with_files []))"
    by (simp add: hasstatus_iff state_with_files_def)
  have b: "badinput ''30; reboot''"
    by simp
  show ?thesis
    using h b by (simp add: vector_store_def Let_def not_takes_argument_simps)
qed

subsection \<open>Reading the status\<close>

lemma cstring_no_nul: "CHR 0x00 \<notin> set line \<Longrightarrow> cstring line = line"
  by (auto simp add: cstring_def)

lemma getstatus_well_formed:
  assumes "fs (statuspath m ctx) = Some (Regular (line @ [CHR 0x0A]))"
    and "length line < 256" and "CHR 0x00 \<notin> set line"
  shows "getstatus m 256 ctx fs = (if line = [] then ''UNKNOWN'' else line)"
proof (cases "line = []")
  case True
  with assms(1) show ?thesis by (simp add: getstatus_Regular)
next
  case False
  then have "1 < min (length (line @ [CHR 0x0A])) 256"
    by (cases line) simp_all
  moreover have "butlast (take 256 (line @ [CHR 0x0A])) = line"
    using assms(2) by simp
  ultimately show ?thesis
    using False assms(1,3) by (simp add: getstatus_Regular cstring_no_nul)
qed

lemma spec_get_well_formed:
  "spec_get (Some (Regular (line @ [CHR 0x0A]))) = line"
  by (simp add: spec_get_def strip_trailing_newline_def)

text \<open>
  On a status file of at most 256 bytes that is a text without NUL followed by a newline,
  \<open>getstatus\<close> and the specification agree: by \<open>getstatus_well_formed\<close> and
  \<open>spec_get_well_formed\<close> both give the text when it is not empty.
\<close>

text \<open>
  Claim C9. The claim fails on a status file that does not end in a newline: the
  assignment \<open>buf[sz - 1] = 0\<close>, commented as removing the newline, removes whatever
  byte is last. Of the four bytes \<open>DONE\<close> the status read is \<open>"DON"\<close>, and the one
  byte \<open>X\<close>, neither empty nor unreadable, is read as \<open>"UNKNOWN"\<close>.
\<close>

theorem getstatus_drops_last_byte:
  "getstatus ''cpuflamegraph'' 256 7
     (map_of [(statuspath ''cpuflamegraph'' 7, Regular ''DONE'')])
   = ''DON''
   \<and> spec_get (map_of [(statuspath ''cpuflamegraph'' 7, Regular ''DONE'')]
        (statuspath ''cpuflamegraph'' 7))
   = ''DONE''
   \<and> getstatus ''cpuflamegraph'' 256 7
       (map_of [(statuspath ''cpuflamegraph'' 7, Regular ''X'')])
   = ''UNKNOWN''
   \<and> spec_get (map_of [(statuspath ''cpuflamegraph'' 7, Regular ''X'')]
        (statuspath ''cpuflamegraph'' 7))
   = ''X''"
  by (simp add: getstatus_Regular cstring_def spec_get_def strip_trailing_newline_def)

end
